theory Spec2Isabelle
  imports Main "HOL-Library.AList"
begin

section \<open>Data model\<close>

text \<open>
  The document store holds one collection per Mongoose model. A collection is the list of
  its documents in insertion order; every document carries its own \<open>_id\<close>. ObjectIds are
  natural numbers, dates are integers (milliseconds), a JavaScript Number is an integer.
  The \<open>createdAt\<close>/\<open>updatedAt\<close> stamps that Mongoose maintains by itself are left out, and
  so are the schema fields that none of the modelled controllers reads or writes
  (names, e-mail addresses, blog bodies and the like). An id is a well-formed ObjectId:
  the cast error that Mongoose raises on a malformed id string is outside the model, and
  so is a store that cannot be reached.
\<close>

type_synonym oid = nat
type_synonym date = int

datatype role = Student | Admin

record user =
  user_id :: oid
  user_role :: role
  user_contests :: "oid list"

record blog =
  blog_id :: oid
  author :: oid

datatype pay_status = Pending | Completed | Failed | Refunded
datatype purpose = ForContest | Subscription | Other
datatype related_model = ModelContest | ModelUser

record payment =
  payment_id :: oid
  payment_user :: oid
  amount :: int
  currency :: string
  purpose :: purpose
  relatedTo :: "oid option"
  relatedModel :: "related_model option"
  status :: pay_status
  paymentMethod :: string
  razorpayPaymentId :: "string option"
  razorpayOrderId :: "string option"
  razorpaySignature :: "string option"
  receipt :: "string option"

datatype part_status = PartPending | PartCompleted | PartFailed

record participant =
  part_user :: oid
  registeredAt :: date
  paymentStatus :: part_status
  paymentId :: "oid option"

datatype contest_status = Upcoming | Ongoing | ContestCompleted | Cancelled

record contest =
  contest_id :: oid
  startDate :: date
  endDate :: date
  registrationDeadline :: date
  entryFee :: int
  maxParticipants :: "int option"
  participants :: "participant list"
  contest_status :: contest_status

datatype recipients = AllStudents | Specific
datatype urgency = Info | Important | Urgent
datatype related = RelBlog | RelContest | RelPayment | RelGeneral | RelAccount
datatype notification_type = TypeBlog | TypeContest | TypePayment

text \<open>
  \<open>isRead\<close> is a JavaScript Map from user id to boolean: an association list, in which
  \<open>AList.update\<close> overwrites an existing key in place and appends a new one, as
  \<open>Map.prototype.set\<close> does.
\<close>

record notification =
  notification_id :: oid
  title :: string
  message :: string
  sender :: oid
  recipients :: recipients
  targetUsers :: "oid list"
  urgencyLevel :: urgency
  isRead :: "(oid \<times> bool) list"
  notif_relatedTo :: related
  relatedId :: "oid option"
  notificationType :: "notification_type option"

text \<open>
  \<open>emitted\<close> logs the Socket.io pushes \<open>io.to(room).emit('notification', {type, ...})\<close>
  as pairs of room and type tag.
\<close>

record store =
  users :: "user list"
  blogs :: "blog list"
  contests :: "contest list"
  payments :: "payment list"
  notifications :: "notification list"
  emitted :: "(oid \<times> string) list"

text \<open>
  What the controllers take from outside the repository: the keyed hash of Node's
  \<open>crypto\<close> module (\<open>createHmac('sha256', key).update(msg).digest('hex')\<close>), the Razorpay
  secret read from the process environment, the conversion of a Number to a string inside
  a template literal, \<open>String.prototype.trim\<close> (the schema's \<open>trim: true\<close>), and one
  point on which the releases of express-validator differ: whether \<open>isEmpty()\<close> holds of
  an empty array. The older releases turn the array into the string \<open>''\<close> and say yes; the
  later ones run a standard validator once per element of an array, so on \<open>[]\<close> the
  validator never runs and \<open>.not().isEmpty()\<close> reports nothing.
\<close>

record env =
  hmacSha256Hex :: "string \<Rightarrow> string \<Rightarrow> string"
  razorpayKeySecret :: string
  numToString :: "int \<Rightarrow> string"
  jsTrim :: "string \<Rightarrow> string"
  emptyArrayIsEmpty :: bool

subsection \<open>Early returns\<close>

text \<open>
  Every \<open>return res.status(...).json(...)\<close> of the modelled controllers is one
  constructor, and \<open>httpStatus\<close> gives its status code:
  \<^item> \<open>NotFound what\<close>: the message \<open>what\<close> followed by \<open>not found\<close>;
  \<^item> \<open>RegistrationClosed\<close>: \<open>Registration for this contest is closed\<close>;
  \<^item> \<open>Full\<close>: \<open>This contest has reached maximum participants\<close>;
  \<^item> \<open>AlreadyRegistered\<close>: \<open>You are already registered for this contest\<close>;
  \<^item> \<open>InvalidSignature\<close>: \<open>Invalid payment signature\<close>;
  \<^item> \<open>Forbidden\<close>: \<open>Not authorized to access this notification\<close>;
  \<^item> \<open>InvalidSpec errors\<close>: the non-empty \<open>validationResult\<close> of the request;
  \<^item> \<open>CannotDeleteSelf\<close>: \<open>Cannot delete your own account\<close>.

  \<open>Unhandled\<close> is an exception caught by the controller's \<open>catch\<close> and handed to
  \<open>next(error)\<close>, which the server's error handler answers with \<open>err.status || 500\<close>.
\<close>

datatype error =
    NotFound string
  | RegistrationClosed
  | Full
  | AlreadyRegistered
  | InvalidSignature
  | Forbidden
  | InvalidSpec "string list"
  | CannotDeleteSelf
  | Unhandled string

fun httpStatus :: "error \<Rightarrow> nat" where
  "httpStatus (NotFound what) = 404"
| "httpStatus RegistrationClosed = 400"
| "httpStatus Full = 400"
| "httpStatus AlreadyRegistered = 400"
| "httpStatus InvalidSignature = 400"
| "httpStatus Forbidden = 403"
| "httpStatus (InvalidSpec errors) = 400"
| "httpStatus CannotDeleteSelf = 400"
| "httpStatus (Unhandled msg) = 500"

subsection \<open>Store primitives\<close>

text \<open>
  \<open>findById\<close> returns the first document with the id, or nothing (\<open>null\<close>); Mongoose
  reads \<open>findById(undefined)\<close> as a query for the id \<open>null\<close>, which finds nothing.
  \<open>insertDoc\<close> is \<open>save()\<close> on a document made with \<open>new Model(...)\<close>; \<open>updateDoc\<close> is
  \<open>save()\<close> on a document that was read from the store: it rewrites the document with
  that id.
\<close>

definition findById :: "('a \<Rightarrow> oid) \<Rightarrow> 'a list \<Rightarrow> oid \<Rightarrow> 'a option" where
  "findById idOf docs i = find (\<lambda>d. idOf d = i) docs"

definition insertDoc :: "'a \<Rightarrow> 'a list \<Rightarrow> 'a list" where
  "insertDoc d docs = docs @ [d]"

fun updateDoc :: "('a \<Rightarrow> oid) \<Rightarrow> 'a \<Rightarrow> 'a list \<Rightarrow> 'a list" where
  "updateDoc idOf d [] = []"
| "updateDoc idOf d (x # xs) = (if idOf x = idOf d then d # xs else x # updateDoc idOf d xs)"

text \<open>\<open>Array.prototype.findIndex\<close>; the source's \<open>-1\<close> is \<open>None\<close>.\<close>

fun findIndex :: "('a \<Rightarrow> bool) \<Rightarrow> 'a list \<Rightarrow> nat option" where
  "findIndex P [] = None"
| "findIndex P (x # xs) = (if P x then Some 0 else map_option Suc (findIndex P xs))"

section \<open>Payment reconciliation: verifyPayment\<close>

text \<open>
  The request body of \<open>POST /api/payments/verify\<close>. A field that the client left out is
  \<open>None\<close>; inside the template literal it reads \<open>undefined\<close>.
\<close>

record verify_body =
  body_razorpayPaymentId :: "string option"
  body_razorpayOrderId :: "string option"
  body_razorpaySignature :: "string option"
  body_paymentId :: "oid option"

record payment_summary =
  sum_id :: oid
  sum_amount :: int
  sum_status :: pay_status
  sum_purpose :: purpose

fun template :: "string option \<Rightarrow> string" where
  "template None = ''undefined''"
| "template (Some s) = s"

definition generatedSignature :: "env \<Rightarrow> verify_body \<Rightarrow> string" where
  "generatedSignature e body =
     hmacSha256Hex e (razorpayKeySecret e)
       (template (body_razorpayOrderId body) @ ''|'' @ template (body_razorpayPaymentId body))"

fun purposeName :: "purpose \<Rightarrow> string" where
  "purposeName ForContest = ''contest''"
| "purposeName Subscription = ''subscription''"
| "purposeName Other = ''other''"

text \<open>The rupee sign of the message, in UTF-8.\<close>

definition rupee :: string where
  "rupee = [CHR 0xE2, CHR 0x82, CHR 0xB9]"

definition paymentNotification :: "env \<Rightarrow> oid \<Rightarrow> oid \<Rightarrow> payment \<Rightarrow> notification" where
  "paymentNotification e newId caller p =
     \<lparr> notification_id = newId,
       title = ''Payment Successful'',
       message = ''Your payment of '' @ rupee @ numToString e (amount p) @ '' for ''
                 @ purposeName (purpose p) @ '' has been processed successfully.'',
       sender = caller,
       recipients = Specific,
       targetUsers = [caller],
       urgencyLevel = Important,
       isRead = [],
       notif_relatedTo = RelPayment,
       relatedId = Some (payment_id p),
       notificationType = Some TypePayment \<rparr>"

text \<open>
  The block \<open>if (payment.purpose === 'contest' && payment.relatedModel === 'Contest')\<close>:
  the participant is looked up by the id of the caller (\<open>req.user.id\<close>).
\<close>

definition completeParticipant :: "oid \<Rightarrow> payment \<Rightarrow> contest list \<Rightarrow> contest list" where
  "completeParticipant caller p cs =
     (if purpose p = ForContest \<and> relatedModel p = Some ModelContest then
        (case (case relatedTo p of None \<Rightarrow> None | Some cid \<Rightarrow> findById contest_id cs cid) of
           None \<Rightarrow> cs
         | Some c \<Rightarrow>
             (case findIndex (\<lambda>q. part_user q = caller) (participants c) of
                None \<Rightarrow> cs
              | Some i \<Rightarrow>
                  updateDoc contest_id
                    (c\<lparr>participants := (participants c)
                         [i := (participants c ! i)
                                 \<lparr>paymentStatus := PartCompleted,
                                  paymentId := Some (payment_id p)\<rparr>]\<rparr>)
                    cs))
      else cs)"

definition verifyPayment ::
  "env \<Rightarrow> oid \<Rightarrow> oid \<Rightarrow> verify_body \<Rightarrow> store \<Rightarrow> (error + payment_summary) \<times> store" where
  "verifyPayment e newNotificationId caller body s =
     (if Some (generatedSignature e body) \<noteq> body_razorpaySignature body
      then (Inl InvalidSignature, s)
      else
        (case (case body_paymentId body of None \<Rightarrow> None
               | Some i \<Rightarrow> findById payment_id (payments s) i) of
           None \<Rightarrow> (Inl (NotFound ''Payment''), s)
         | Some found \<Rightarrow>
             (let p = found\<lparr>razorpayPaymentId := body_razorpayPaymentId body,
                            razorpaySignature := body_razorpaySignature body,
                            status := Completed\<rparr>;
                  n = paymentNotification e newNotificationId caller p
              in (Inr \<lparr> sum_id = payment_id p, sum_amount = amount p,
                        sum_status = status p, sum_purpose = purpose p \<rparr>,
                  s\<lparr> payments := updateDoc payment_id p (payments s),
                     contests := completeParticipant caller p (contests s),
                     notifications := insertDoc n (notifications s),
                     emitted := emitted s @ [(caller, ''PAYMENT_SUCCESS'')] \<rparr>))))"

section \<open>Contest registration: registerForContest\<close>

text \<open>The virtual \<open>isRegistrationOpen\<close> and the method \<open>isFull\<close> of the contest schema.\<close>

definition isRegistrationOpen :: "date \<Rightarrow> contest \<Rightarrow> bool" where
  "isRegistrationOpen now c = (now \<le> registrationDeadline c \<and> contest_status c \<noteq> Cancelled)"

text \<open>\<open>!this.maxParticipants\<close> holds for \<open>null\<close> and for \<open>0\<close>.\<close>

definition isFull :: "contest \<Rightarrow> bool" where
  "isFull c =
     (case maxParticipants c of
        None \<Rightarrow> False
      | Some m \<Rightarrow> if m = 0 then False else m \<le> int (length (participants c)))"

record register_result =
  reg_contest :: oid
  paymentRequired :: bool
  reg_paymentStatus :: part_status
  reg_payment :: "(oid \<times> int \<times> pay_status) option"

text \<open>
  \<open>new Payment({user, amount, purpose: 'contest', relatedTo, relatedModel: 'Contest',
  status: 'pending'})\<close>, with the schema's defaults for the fields not given.
\<close>

definition registrationPayment :: "oid \<Rightarrow> oid \<Rightarrow> contest \<Rightarrow> payment" where
  "registrationPayment newId caller c =
     \<lparr> payment_id = newId,
       payment_user = caller,
       amount = entryFee c,
       currency = ''INR'',
       purpose = ForContest,
       relatedTo = Some (contest_id c),
       relatedModel = Some ModelContest,
       status = Pending,
       paymentMethod = ''razorpay'',
       razorpayPaymentId = None,
       razorpayOrderId = None,
       razorpaySignature = None,
       receipt = None \<rparr>"

text \<open>\<open>User.findByIdAndUpdate(id, {$push: {contests: contestId}})\<close>.\<close>

fun pushContest :: "oid \<Rightarrow> oid \<Rightarrow> user list \<Rightarrow> user list" where
  "pushContest uid cid [] = []"
| "pushContest uid cid (u # us) =
     (if user_id u = uid then u\<lparr>user_contests := user_contests u @ [cid]\<rparr> # us
      else u # pushContest uid cid us)"

text \<open>
  \<open>now\<close> is the clock read by \<open>isRegistrationOpen\<close>, \<open>registeredNow\<close> the one read for
  \<open>registeredAt\<close>; \<open>newPaymentId\<close> is the ObjectId that \<open>new Payment\<close> generates.
\<close>

definition registerForContest ::
  "date \<Rightarrow> date \<Rightarrow> oid \<Rightarrow> oid \<Rightarrow> oid \<Rightarrow> store \<Rightarrow> (error + register_result) \<times> store" where
  "registerForContest now registeredNow newPaymentId caller cid s =
     (case findById contest_id (contests s) cid of
        None \<Rightarrow> (Inl (NotFound ''Contest''), s)
      | Some c \<Rightarrow>
          if \<not> isRegistrationOpen now c then (Inl RegistrationClosed, s)
          else if isFull c then (Inl Full, s)
          else if list_ex (\<lambda>p. part_user p = caller) (participants c)
            then (Inl AlreadyRegistered, s)
          else
            (let pay = (if entryFee c > 0
                        then Some (registrationPayment newPaymentId caller c) else None);
                 entry = \<lparr> part_user = caller,
                           registeredAt = registeredNow,
                           paymentStatus = (if entryFee c > 0 then PartPending else PartCompleted),
                           paymentId = map_option payment_id pay \<rparr>;
                 c' = c\<lparr>participants := participants c @ [entry]\<rparr>
             in (Inr \<lparr> reg_contest = contest_id c',
                       paymentRequired = (entryFee c' > 0),
                       reg_paymentStatus = (if entryFee c' > 0 then PartPending else PartCompleted),
                       reg_payment = map_option (\<lambda>p. (payment_id p, amount p, status p)) pay \<rparr>,
                 s\<lparr> payments := (case pay of None \<Rightarrow> payments s
                                   | Some p \<Rightarrow> insertDoc p (payments s)),
                    contests := updateDoc contest_id c' (contests s),
                    users := pushContest caller (contest_id c') (users s) \<rparr>)))"

section \<open>Notification store: createNotification, markAsRead\<close>

text \<open>
  The body of \<open>POST /api/notifications\<close>. A title or message that the client left out
  is the empty string, which is what the validators make of it.
\<close>

record notification_body =
  body_title :: string
  body_message :: string
  body_recipients :: "string option"
  body_targetUsers :: "oid list option"
  body_urgencyLevel :: "urgency option"
  body_relatedTo :: "related option"
  body_relatedId :: "oid option"

text \<open>\<open>User.find({ role: 'student' }).select('_id')\<close>, mapped to the ids.\<close>

definition studentIds :: "store \<Rightarrow> oid list" where
  "studentIds s = map user_id (filter (\<lambda>u. user_role u = Student) (users s))"

text \<open>The \<open>switch (relatedTo)\<close> that sets \<open>notificationType\<close>.\<close>

fun typeOfRelated :: "related \<Rightarrow> notification_type option" where
  "typeOfRelated RelBlog = Some TypeBlog"
| "typeOfRelated RelContest = Some TypeContest"
| "typeOfRelated RelPayment = Some TypePayment"
| "typeOfRelated RelGeneral = None"
| "typeOfRelated RelAccount = None"

definition notificationData :: "env \<Rightarrow> oid \<Rightarrow> oid \<Rightarrow> notification_body \<Rightarrow> store \<Rightarrow> notification" where
  "notificationData e newId caller body s =
     (let specific = (body_recipients body = Some ''specific'' \<and>
                      (case body_targetUsers body of None \<Rightarrow> False | Some us \<Rightarrow> 0 < length us));
          linked = (case body_relatedTo body of
                      None \<Rightarrow> False
                    | Some r \<Rightarrow> r \<noteq> RelGeneral \<and> body_relatedId body \<noteq> None)
      in \<lparr> notification_id = newId,
           title = jsTrim e (body_title body),
           message = body_message body,
           sender = caller,
           recipients = (if specific then Specific else AllStudents),
           targetUsers = (case body_targetUsers body of
                            None \<Rightarrow> studentIds s
                          | Some us \<Rightarrow> if specific then us else studentIds s),
           urgencyLevel = (case body_urgencyLevel body of None \<Rightarrow> Info | Some u \<Rightarrow> u),
           isRead = [],
           notif_relatedTo = (case body_relatedTo body of None \<Rightarrow> RelGeneral | Some r \<Rightarrow> r),
           relatedId = (if linked then body_relatedId body else None),
           notificationType = (case body_relatedTo body of
                                 None \<Rightarrow> None
                               | Some r \<Rightarrow> if linked then typeOfRelated r else None) \<rparr>)"

text \<open>
  The schema's \<open>required: true\<close> on \<open>title\<close> (after trimming) and \<open>message\<close> rejects an
  empty string when the document is saved; the rejection reaches \<open>catch\<close>.
  \<open>validationFailed\<close> is the message of Mongoose's error: the model name, then one part for
  each path that failed, in the order of the schema.
\<close>

definition validationFailed :: "notification \<Rightarrow> string" where
  "validationFailed n =
     ''Notification validation failed: '' @
     (if title n = [] then ''title: Path `title` is required.'' else []) @
     (if title n = [] \<and> message n = [] then '', '' else []) @
     (if message n = [] then ''message: Path `message` is required.'' else [])"

text \<open>
  The controller. \<open>validationErrors\<close> is what \<open>validationResult(req)\<close> holds when the
  controller starts.
\<close>

definition createNotification ::
  "env \<Rightarrow> oid \<Rightarrow> oid \<Rightarrow> string list \<Rightarrow> notification_body \<Rightarrow> store
     \<Rightarrow> (error + notification) \<times> store" where
  "createNotification e newId caller validationErrors body s =
     (if validationErrors \<noteq> [] then (Inl (InvalidSpec validationErrors), s)
      else
        (let n = notificationData e newId caller body s
         in if title n = [] \<or> message n = []
            then (Inl (Unhandled (validationFailed n)), s)
            else (Inr n,
                  s\<lparr> notifications := insertDoc n (notifications s),
                     emitted := emitted s @ map (\<lambda>u. (u, ''NEW_NOTIFICATION'')) (targetUsers n) \<rparr>)))"

text \<open>
  The validation chain that \<open>routes/notifications.js\<close> mounts before the controller; each
  check that fails adds one error, written here as the name of the field it rejects:
  \<^item> \<open>check('title').not().isEmpty()\<close> and the same for \<open>message\<close>;
  \<^item> \<open>check('recipients').isIn(['all', 'specific'])\<close>;
  \<^item> \<open>check('targetUsers').if(recipients === 'specific').isArray().not().isEmpty()\<close>:
    an absent list fails both \<open>isArray()\<close> and \<open>.not().isEmpty()\<close>; an empty list passes
    \<open>isArray()\<close> and fails \<open>.not().isEmpty()\<close> only where the library holds an empty
    array to be empty; a list with elements passes both;
  \<^item> \<open>check('urgencyLevel').optional().isIn([...])\<close> cannot fail on a value of type
    \<open>urgency\<close>.
\<close>

definition validationResult :: "env \<Rightarrow> notification_body \<Rightarrow> string list" where
  "validationResult e body =
     (if body_title body = [] then [''title''] else []) @
     (if body_message body = [] then [''message''] else []) @
     (if body_recipients body = Some ''all'' \<or> body_recipients body = Some ''specific''
      then [] else [''recipients'']) @
     (if body_recipients body = Some ''specific'' then
        (case body_targetUsers body of
           None \<Rightarrow> [''targetUsers'', ''targetUsers'']
         | Some us \<Rightarrow> if us = [] \<and> emptyArrayIsEmpty e then [''targetUsers''] else [])
      else [])"

text \<open>The route \<open>POST /api/notifications\<close>: the chain, then the controller.\<close>

definition createNotificationRoute ::
  "env \<Rightarrow> oid \<Rightarrow> oid \<Rightarrow> notification_body \<Rightarrow> store \<Rightarrow> (error + notification) \<times> store" where
  "createNotificationRoute e newId caller body s =
     createNotification e newId caller (validationResult e body) body s"

text \<open>
  The schema methods \<open>markAsRead\<close> and \<open>isReadByUser\<close>. The schema gives \<open>isRead\<close> the
  default \<open>{}\<close>, so the map is always there and the guards \<open>if (!this.isRead)\<close> never fire.
\<close>

definition notificationMarkAsRead :: "oid \<Rightarrow> notification \<Rightarrow> notification" where
  "notificationMarkAsRead userId n = n\<lparr>isRead := AList.update userId True (isRead n)\<rparr>"

definition isReadByUser :: "oid \<Rightarrow> notification \<Rightarrow> bool" where
  "isReadByUser userId n = (case map_of (isRead n) userId of None \<Rightarrow> False | Some b \<Rightarrow> b)"

text \<open>The controller \<open>markAsRead\<close> of \<open>PUT /api/notifications/:id/read\<close>.\<close>

definition markAsRead :: "oid \<Rightarrow> oid \<Rightarrow> store \<Rightarrow> (error + unit) \<times> store" where
  "markAsRead caller nid s =
     (case findById notification_id (notifications s) nid of
        None \<Rightarrow> (Inl (NotFound ''Notification''), s)
      | Some n \<Rightarrow>
          if \<not> list_ex (\<lambda>userId. userId = caller) (targetUsers n) then (Inl Forbidden, s)
          else (Inr (),
                s\<lparr> notifications :=
                     updateDoc notification_id (notificationMarkAsRead caller n)
                       (notifications s) \<rparr>))"

section \<open>User deletion: deleteUser\<close>

text \<open>
  \<open>Contest.updateMany({'participants.user': id}, {$pull: {participants: {user: id}}})\<close>
  on one contest, and \<open>Notification.deleteMany({$or: [{sender: id}, {targetUsers: id}]})\<close>:
  a query on the array field \<open>targetUsers\<close> matches when the array contains the id.
\<close>

definition pullParticipant :: "oid \<Rightarrow> contest \<Rightarrow> contest" where
  "pullParticipant uid c =
     (if list_ex (\<lambda>p. part_user p = uid) (participants c)
      then c\<lparr>participants := filter (\<lambda>p. part_user p \<noteq> uid) (participants c)\<rparr>
      else c)"

definition userNotification :: "oid \<Rightarrow> notification \<Rightarrow> bool" where
  "userNotification uid n = (sender n = uid \<or> uid \<in> set (targetUsers n))"

fun deleteOne :: "('a \<Rightarrow> oid) \<Rightarrow> oid \<Rightarrow> 'a list \<Rightarrow> 'a list" where
  "deleteOne idOf i [] = []"
| "deleteOne idOf i (x # xs) = (if idOf x = i then xs else x # deleteOne idOf i xs)"

definition deleteUser :: "oid \<Rightarrow> oid \<Rightarrow> store \<Rightarrow> (error + unit) \<times> store" where
  "deleteUser caller uid s =
     (case findById user_id (users s) uid of
        None \<Rightarrow> (Inl (NotFound ''User''), s)
      | Some u \<Rightarrow>
          if user_id u = caller then (Inl CannotDeleteSelf, s)
          else (Inr (),
                s\<lparr> blogs := filter (\<lambda>b. author b \<noteq> user_id u) (blogs s),
                   contests := map (pullParticipant (user_id u)) (contests s),
                   notifications :=
                     filter (\<lambda>n. \<not> userNotification (user_id u) n) (notifications s),
                   users := deleteOne user_id (user_id u) (users s) \<rparr>))"

section \<open>Sample data\<close>

text \<open>
  A small store: an admin (1), two students (2 and 3), a contest with a fee (10) in which
  both students are registered, the pending payment of student 2 (20), a failed payment
  of student 3 (21), and a notification (30) addressed to both students.
\<close>

definition sampleEnv :: env where
  "sampleEnv =
     \<lparr> hmacSha256Hex = (\<lambda>key msg. key @ '':'' @ msg),
       razorpayKeySecret = ''secret'',
       numToString = (\<lambda>n. if n = 500 then ''500'' else ''0''),
       jsTrim = (\<lambda>t. t),
       emptyArrayIsEmpty = False \<rparr>"

definition samplePayment :: payment where
  "samplePayment =
     \<lparr> payment_id = 20, payment_user = 2, amount = 500, currency = ''INR'',
       purpose = ForContest, relatedTo = Some 10, relatedModel = Some ModelContest,
       status = Pending, paymentMethod = ''razorpay'', razorpayPaymentId = None,
       razorpayOrderId = None, razorpaySignature = None, receipt = None \<rparr>"

definition sampleContest :: contest where
  "sampleContest =
     \<lparr> contest_id = 10, startDate = 2000, endDate = 3000, registrationDeadline = 1000,
       entryFee = 500, maxParticipants = None,
       participants =
         [\<lparr> part_user = 2, registeredAt = 100, paymentStatus = PartPending,
             paymentId = Some 20 \<rparr>,
          \<lparr> part_user = 3, registeredAt = 110, paymentStatus = PartPending,
             paymentId = Some 21 \<rparr>],
       contest_status = Upcoming \<rparr>"

definition sampleNotification :: notification where
  "sampleNotification =
     \<lparr> notification_id = 30, title = ''Hello'', message = ''Welcome'', sender = 1,
       recipients = Specific, targetUsers = [2, 3], urgencyLevel = Info, isRead = [],
       notif_relatedTo = RelGeneral, relatedId = None, notificationType = None \<rparr>"

definition sampleStore :: store where
  "sampleStore =
     \<lparr> users = [\<lparr> user_id = 1, user_role = Admin, user_contests = [] \<rparr>,
                \<lparr> user_id = 2, user_role = Student, user_contests = [10] \<rparr>,
                \<lparr> user_id = 3, user_role = Student, user_contests = [10] \<rparr>],
       blogs = [],
       contests = [sampleContest],
       payments = [samplePayment, samplePayment\<lparr>payment_id := 21, payment_user := 3, status := Failed\<rparr>],
       notifications = [sampleNotification],
       emitted = [] \<rparr>"

text \<open>A request body whose signature is the keyed hash of \<open>order_1|pay_1\<close>.\<close>

definition signedBody :: "oid \<Rightarrow> verify_body" where
  "signedBody pid =
     \<lparr> body_razorpayPaymentId = Some ''pay_1'', body_razorpayOrderId = Some ''order_1'',
       body_razorpaySignature = Some ''secret:order_1|pay_1'', body_paymentId = Some pid \<rparr>"

text \<open>
  The same store with a free contest, with a contest whose \<open>maxParticipants\<close> is 0, and a
  store in which the admin is the only user.
\<close>

definition freeStore :: store where
  "freeStore = sampleStore\<lparr>contests := [sampleContest\<lparr>entryFee := 0\<rparr>]\<rparr>"

definition zeroCapacityStore :: store where
  "zeroCapacityStore = sampleStore\<lparr>contests := [sampleContest\<lparr>maxParticipants := Some 0\<rparr>]\<rparr>"

definition adminOnlyStore :: store where
  "adminOnlyStore =
     \<lparr> users = [\<lparr> user_id = 1, user_role = Admin, user_contests = [] \<rparr>],
       blogs = [], contests = [], payments = [], notifications = [], emitted = [] \<rparr>"

text \<open>Three bodies for \<open>POST /api/notifications\<close>.\<close>

definition broadcastBody :: notification_body where
  "broadcastBody =
     \<lparr> body_title = ''Notice'', body_message = ''Exams start on Monday'',
       body_recipients = Some ''all'', body_targetUsers = None, body_urgencyLevel = None,
       body_relatedTo = None, body_relatedId = None \<rparr>"

definition specificEmptyBody :: notification_body where
  "specificEmptyBody =
     broadcastBody\<lparr>body_recipients := Some ''specific'', body_targetUsers := Some []\<rparr>"

definition specificAbsentBody :: notification_body where
  "specificAbsentBody = broadcastBody\<lparr>body_recipients := Some ''specific''\<rparr>"

section \<open>Facts about the store primitives\<close>

lemma findById_id: "findById idOf xs i = Some d \<Longrightarrow> idOf d = i"
  by (auto simp: findById_def find_Some_iff)

lemma findById_updateDoc:
  "findById idOf xs (idOf d) = Some x \<Longrightarrow>
     findById idOf (updateDoc idOf d xs) (idOf d) = Some d"
  by (induction xs) (auto simp: findById_def split: if_splits)

lemma updateDoc_same: "findById idOf xs (idOf d) = Some d \<Longrightarrow> updateDoc idOf d xs = xs"
  by (induction xs) (auto simp: findById_def split: if_splits)



lemma findIndex_Some: "findIndex P xs = Some i \<Longrightarrow> i < length xs \<and> P (xs ! i)"
  by (induction xs arbitrary: i) (auto split: if_splits)

lemma findById_updateDoc_other:
  "idOf d \<noteq> i \<Longrightarrow> findById idOf (updateDoc idOf d xs) i = findById idOf xs i"
  by (induction xs) (auto simp: findById_def)

lemma completeParticipant_caller:
  assumes "purpose p = ForContest \<and> relatedModel p = Some ModelContest"
    and "relatedTo p = Some cid"
    and "findById contest_id cs cid = Some c"
    and "findIndex (\<lambda>q. part_user q = caller) (participants c) = Some j"
  shows "findById contest_id (completeParticipant caller p cs) cid =
           Some (c\<lparr>participants := (participants c)
                    [j := (participants c ! j)\<lparr>paymentStatus := PartCompleted,
                                               paymentId := Some (payment_id p)\<rparr>]\<rparr>)"
proof -
  let ?c' = "c\<lparr>participants := (participants c)
                [j := (participants c ! j)\<lparr>paymentStatus := PartCompleted,
                                           paymentId := Some (payment_id p)\<rparr>]\<rparr>"
  have cid: "contest_id c = cid" using assms(3) by (rule findById_id)
  have "completeParticipant caller p cs = updateDoc contest_id ?c' cs"
    using assms by (simp add: completeParticipant_def)
  then show ?thesis
    using findById_updateDoc [of contest_id cs ?c' c] assms(3) cid by simp
qed

lemma completeParticipant_others:
  assumes found: "findById contest_id cs k = Some c"
  shows "\<exists>c'. findById contest_id (completeParticipant caller p cs) k = Some c' \<and>
              length (participants c') = length (participants c) \<and>
              (\<forall>j < length (participants c).
                 part_user (participants c ! j) \<noteq> caller \<longrightarrow>
                   participants c' ! j = participants c ! j)"
proof (cases "completeParticipant caller p cs = cs")
  case True
  then show ?thesis using found by simp
next
  case False
  then obtain cid c0 i where rel: "relatedTo p = Some cid"
    and c0: "findById contest_id cs cid = Some c0"
    and i: "findIndex (\<lambda>q. part_user q = caller) (participants c0) = Some i"
    and cs': "completeParticipant caller p cs =
                updateDoc contest_id
                  (c0\<lparr>participants := (participants c0)
                        [i := (participants c0 ! i)\<lparr>paymentStatus := PartCompleted,
                                                    paymentId := Some (payment_id p)\<rparr>]\<rparr>) cs"
    by (auto simp: completeParticipant_def split: if_splits option.splits)
  let ?c' = "c0\<lparr>participants := (participants c0)
                 [i := (participants c0 ! i)\<lparr>paymentStatus := PartCompleted,
                                             paymentId := Some (payment_id p)\<rparr>]\<rparr>"
  have cid: "contest_id c0 = cid" using c0 by (rule findById_id)
  have ii: "i < length (participants c0) \<and> part_user (participants c0 ! i) = caller"
    using findIndex_Some [OF i] by simp
  show ?thesis
  proof (cases "k = cid")
    case True
    then have same: "c = c0" using found c0 by simp
    have "findById contest_id (updateDoc contest_id ?c' cs) cid = Some ?c'"
      using findById_updateDoc [of contest_id cs ?c' c0] c0 cid by simp
    moreover have "\<forall>j < length (participants c0).
        part_user (participants c0 ! j) \<noteq> caller \<longrightarrow>
          participants ?c' ! j = participants c0 ! j"
      using ii by (auto simp: nth_list_update)
    ultimately show ?thesis using True same cs' by simp
  next
    case False
    then have "findById contest_id (updateDoc contest_id ?c' cs) k = findById contest_id cs k"
      using findById_updateDoc_other [of contest_id ?c' k cs] cid by simp
    then show ?thesis using found cs' by simp
  qed
qed

lemma update_twice: "AList.update k v (AList.update k v al) = AList.update k v al"
  by (induction al) auto


section \<open>Signature check before any mutation\<close>

text \<open>
  C1. Whenever the signature sent differs from the keyed hash of
  \<open>orderId|paymentId\<close> under the secret, \<open>verifyPayment\<close> answers InvalidSignature and
  returns the store it was given: no payment, contest participant or notification changes,
  whatever the other fields of the body are.
\<close>

theorem verifyPayment_forged_signature:
  assumes "body_razorpaySignature body \<noteq> Some (generatedSignature e body)"
  shows "verifyPayment e newNotificationId caller body s = (Inl InvalidSignature, s)"
  using assms by (auto simp: verifyPayment_def)

theorem verifyPayment_forged_signature_witness:
  "body_razorpaySignature ((signedBody 20)\<lparr>body_razorpaySignature := Some ''forged''\<rparr>)
     \<noteq> Some (generatedSignature sampleEnv
                ((signedBody 20)\<lparr>body_razorpaySignature := Some ''forged''\<rparr>))
   \<and> verifyPayment sampleEnv 31 2
       ((signedBody 20)\<lparr>body_razorpaySignature := Some ''forged''\<rparr>) sampleStore
     = (Inl InvalidSignature, sampleStore)"
proof -
  have h: "body_razorpaySignature ((signedBody 20)\<lparr>body_razorpaySignature := Some ''forged''\<rparr>)
     \<noteq> Some (generatedSignature sampleEnv
                ((signedBody 20)\<lparr>body_razorpaySignature := Some ''forged''\<rparr>))"
    by (simp add: signedBody_def generatedSignature_def sampleEnv_def)
  show ?thesis
    using h verifyPayment_forged_signature [OF h, of 31 2 sampleStore] by simp
qed

section \<open>Payment status\<close>




section \<open>Registration and payment records\<close>

text \<open>
  C3. A registration that succeeds on a contest with \<open>entryFee = 0\<close> leaves the payment
  collection as it was and appends a participant with \<open>paymentStatus = completed\<close> and no
  payment id. One that succeeds on a contest with \<open>entryFee > 0\<close> adds exactly one payment,
  \<open>pending\<close>, of purpose contest, tied to that contest and to the caller, and appends a
  participant with \<open>paymentStatus = pending\<close> and the id of that payment.
\<close>

theorem registerForContest_payment:
  assumes found: "findById contest_id (contests s) cid = Some c"
    and ok: "\<not> isl (fst (registerForContest now registeredNow newPaymentId caller cid s))"
  shows "(entryFee c = 0 \<longrightarrow>
            payments (snd (registerForContest now registeredNow newPaymentId caller cid s))
              = payments s \<and>
            findById contest_id
              (contests (snd (registerForContest now registeredNow newPaymentId caller cid s)))
              cid =
              Some (c\<lparr>participants := participants c @
                     [\<lparr> part_user = caller, registeredAt = registeredNow,
                        paymentStatus = PartCompleted, paymentId = None \<rparr>]\<rparr>)) \<and>
         (0 < entryFee c \<longrightarrow>
            (\<exists>p. payments (snd (registerForContest now registeredNow newPaymentId caller cid s))
                   = payments s @ [p] \<and>
                 status p = Pending \<and> payment_user p = caller \<and>
                 purpose p = ForContest \<and> relatedTo p = Some cid \<and>
                 relatedModel p = Some ModelContest \<and>
                 findById contest_id
                   (contests
                      (snd (registerForContest now registeredNow newPaymentId caller cid s)))
                   cid =
                   Some (c\<lparr>participants := participants c @
                          [\<lparr> part_user = caller, registeredAt = registeredNow,
                             paymentStatus = PartPending,
                             paymentId = Some (payment_id p) \<rparr>]\<rparr>)))"
proof -
  have cid: "contest_id c = cid" using found by (rule findById_id)
  have upd: "\<And>c'. contest_id c' = cid \<Longrightarrow>
      findById contest_id (updateDoc contest_id c' (contests s)) cid = Some c'"
    using findById_updateDoc [of contest_id "contests s" _ c] found by auto
  from ok found show ?thesis
    by (auto simp: registerForContest_def Let_def insertDoc_def registrationPayment_def cid upd
             split: if_splits)
qed

theorem registerForContest_payment_witness:
  "(findById contest_id (contests freeStore) 10 = Some (sampleContest\<lparr>entryFee := 0\<rparr>) \<and>
    \<not> isl (fst (registerForContest 500 501 22 4 10 freeStore)) \<and>
    entryFee (sampleContest\<lparr>entryFee := 0\<rparr>) = 0 \<and>
    payments (snd (registerForContest 500 501 22 4 10 freeStore)) = payments freeStore) \<and>
   (findById contest_id (contests sampleStore) 10 = Some sampleContest \<and>
    \<not> isl (fst (registerForContest 500 501 22 4 10 sampleStore)) \<and>
    0 < entryFee sampleContest \<and>
    (\<exists>p. payments (snd (registerForContest 500 501 22 4 10 sampleStore))
            = payments sampleStore @ [p] \<and>
          status p = Pending \<and> payment_user p = 4 \<and> relatedTo p = Some 10))"
proof -
  have f1: "findById contest_id (contests freeStore) 10 = Some (sampleContest\<lparr>entryFee := 0\<rparr>)"
    by (simp add: freeStore_def sampleStore_def sampleContest_def samplePayment_def findById_def)
  have ok1: "\<not> isl (fst (registerForContest 500 501 22 4 10 freeStore))"
    by (simp add: freeStore_def sampleStore_def sampleContest_def samplePayment_def findById_def registerForContest_def isRegistrationOpen_def isFull_def Let_def)
  have fee1: "entryFee (sampleContest\<lparr>entryFee := 0\<rparr>) = 0"
    by simp
  have f2: "findById contest_id (contests sampleStore) 10 = Some sampleContest"
    by (simp add: freeStore_def sampleStore_def sampleContest_def samplePayment_def findById_def)
  have ok2: "\<not> isl (fst (registerForContest 500 501 22 4 10 sampleStore))"
    by (simp add: freeStore_def sampleStore_def sampleContest_def samplePayment_def findById_def registerForContest_def isRegistrationOpen_def isFull_def Let_def)
  have fee2: "0 < entryFee sampleContest"
    by (simp add: freeStore_def sampleStore_def sampleContest_def samplePayment_def findById_def)
  show ?thesis
    using f1 ok1 fee1 f2 ok2 fee2
      registerForContest_payment [OF f1 ok1] registerForContest_payment [OF f2 ok2]
    by blast
qed

section \<open>Notification create\<close>

lemma createNotificationRoute_rejected:
  assumes "body_recipients body = Some ''specific''"
    and "body_targetUsers body = None \<or>
         (body_targetUsers body = Some [] \<and> emptyArrayIsEmpty e)"
  shows "validationResult e body \<noteq> [] \<and>
         createNotificationRoute e newId caller body s
           = (Inl (InvalidSpec (validationResult e body)), s)"
proof -
  have "validationResult e body \<noteq> []"
    using assms by (auto simp: validationResult_def)
  then show ?thesis
    by (simp add: createNotificationRoute_def createNotification_def)
qed

text \<open>
  C4. A request of mode \<open>specific\<close> without targets is meant to fail with InvalidSpec and
  to persist nothing. The route does so when the list is absent, and when it is empty
  under a library that holds an empty array to be empty (\<open>createNotificationRoute_rejected\<close>).
  Under a library that does not, the empty list passes the chain, the controller takes its
  \<open>else\<close> branch, and the request is persisted as a notification of mode \<open>all\<close> addressed
  to every student: here to students 2 and 3, while the same request without the list is
  rejected.
\<close>

theorem createNotificationRoute_specific_empty_list:
  "\<not> emptyArrayIsEmpty sampleEnv \<and>
   body_recipients specificEmptyBody = Some ''specific'' \<and>
   body_targetUsers specificEmptyBody = Some [] \<and>
   validationResult sampleEnv specificEmptyBody = [] \<and>
   \<not> isl (fst (createNotificationRoute sampleEnv 31 1 specificEmptyBody sampleStore)) \<and>
   length (notifications (snd (createNotificationRoute sampleEnv 31 1 specificEmptyBody sampleStore)))
     = Suc (length (notifications sampleStore)) \<and>
   recipients (last (notifications
       (snd (createNotificationRoute sampleEnv 31 1 specificEmptyBody sampleStore))))
     = AllStudents \<and>
   targetUsers (last (notifications
       (snd (createNotificationRoute sampleEnv 31 1 specificEmptyBody sampleStore))))
     = [2, 3] \<and>
   emitted (snd (createNotificationRoute sampleEnv 31 1 specificEmptyBody sampleStore))
     = [(2, ''NEW_NOTIFICATION''), (3, ''NEW_NOTIFICATION'')] \<and>
   createNotificationRoute sampleEnv 31 1 specificAbsentBody sampleStore
     = (Inl (InvalidSpec [''targetUsers'', ''targetUsers'']), sampleStore)"
  by (simp add: specificEmptyBody_def specificAbsentBody_def broadcastBody_def sampleEnv_def
        sampleStore_def createNotificationRoute_def validationResult_def createNotification_def
        notificationData_def studentIds_def insertDoc_def Let_def)

text \<open>
  C5. Right after create, \<open>targetUsers\<close> is meant to be non-empty in every state of the
  user store. The code at a store whose only user is the admin: a request of mode \<open>all\<close>
  that passes validation succeeds, and the notification is persisted with an empty
  \<open>targetUsers\<close>; nothing is pushed. (\<open>createContest\<close> and \<open>updateContest\<close> skip the
  notification when they have nobody to address.)
\<close>

theorem createNotification_broadcast_without_students:
  "studentIds adminOnlyStore = [] \<and>
   \<not> isl (fst (createNotification sampleEnv 31 1 [] broadcastBody adminOnlyStore)) \<and>
   length (notifications (snd (createNotification sampleEnv 31 1 [] broadcastBody adminOnlyStore)))
     = 1 \<and>
   targetUsers (hd (notifications
       (snd (createNotification sampleEnv 31 1 [] broadcastBody adminOnlyStore))))
     = [] \<and>
   emitted (snd (createNotification sampleEnv 31 1 [] broadcastBody adminOnlyStore)) = []"
  by (simp add: broadcastBody_def adminOnlyStore_def sampleEnv_def createNotification_def notificationData_def studentIds_def
        insertDoc_def Let_def)

section \<open>Cleanup when a user is deleted\<close>

text \<open>
  C6, amended. When \<open>deleteUser\<close> deletes a principal, the notification cleanup deletes,
  whole, every Notification whose sender is the principal or whose target list contains
  the principal, also when other targets remain; the notifications left are exactly those
  that did not name the principal, unchanged and in their order.
\<close>

theorem deleteUser_notifications:
  assumes "findById user_id (users s) uid = Some u" and "uid \<noteq> caller"
  shows "fst (deleteUser caller uid s) = Inr () \<and>
         notifications (snd (deleteUser caller uid s)) =
           filter (\<lambda>n. sender n \<noteq> uid \<and> uid \<notin> set (targetUsers n)) (notifications s)"
  using assms findById_id [OF assms(1)]
  by (auto simp: deleteUser_def userNotification_def intro: filter_cong)

theorem deleteUser_notifications_witness:
  "findById user_id (users sampleStore) 2
     = Some \<lparr> user_id = 2, user_role = Student, user_contests = [10] \<rparr> \<and>
   (2::nat) \<noteq> 1 \<and>
   fst (deleteUser 1 2 sampleStore) = Inr () \<and>
   notifications (snd (deleteUser 1 2 sampleStore)) =
     filter (\<lambda>n. sender n \<noteq> 2 \<and> 2 \<notin> set (targetUsers n)) (notifications sampleStore)"
proof -
  have f: "findById user_id (users sampleStore) 2
     = Some \<lparr> user_id = 2, user_role = Student, user_contests = [10] \<rparr>"
    by (simp add: sampleStore_def sampleNotification_def findById_def)
  have d: "(2::nat) \<noteq> 1" by simp
  show ?thesis using f d deleteUser_notifications [OF f d] by blast
qed

theorem deleteUser_counterexample:
  "fst (deleteUser 1 2 sampleStore) = Inr () \<and>
   notifications sampleStore = [sampleNotification] \<and>
   sender sampleNotification = 1 \<and> targetUsers sampleNotification = [2, 3] \<and>
   notifications (snd (deleteUser 1 2 sampleStore)) = []"
  by (simp add: deleteUser_def sampleStore_def sampleNotification_def findById_def userNotification_def)

section \<open>Registration deadline and capacity\<close>

text \<open>
  C7. For a contest in the store whose \<open>registrationDeadline\<close> lies strictly before the
  time of the call, \<open>registerForContest\<close> fails with RegistrationClosed for every caller,
  whatever the contest's status, capacity and participants are, and returns the store it
  was given: participants and payments are unchanged.
\<close>

theorem registerForContest_past_deadline:
  assumes "findById contest_id (contests s) cid = Some c"
    and "registrationDeadline c < now"
  shows "registerForContest now registeredNow newPaymentId caller cid s
           = (Inl RegistrationClosed, s)"
  using assms by (simp add: registerForContest_def isRegistrationOpen_def)

theorem registerForContest_past_deadline_witness:
  "findById contest_id (contests sampleStore) 10 = Some sampleContest \<and>
   registrationDeadline sampleContest < 1001 \<and>
   maxParticipants sampleContest = None \<and>
   registerForContest 1001 1002 22 4 10 sampleStore = (Inl RegistrationClosed, sampleStore)"
proof -
  have f: "findById contest_id (contests sampleStore) 10 = Some sampleContest"
    by (simp add: sampleStore_def sampleContest_def findById_def)
  have d: "registrationDeadline sampleContest < 1001"
    by (simp add: sampleStore_def sampleContest_def findById_def)
  have m: "maxParticipants sampleContest = None"
    by (simp add: sampleStore_def sampleContest_def findById_def)
  show ?thesis
    using f d m registerForContest_past_deadline [OF f d, of 1002 22 4] by blast
qed

section \<open>Read tracking\<close>

text \<open>
  C8. For a notification in the store and a caller in its target list, \<open>markAsRead\<close>
  succeeds, and a second call on the resulting store succeeds too and returns that store
  unchanged; the caller's entry of the read map is true after the first call, hence after
  the second.
\<close>

theorem markAsRead_idempotent:
  assumes found: "findById notification_id (notifications s) nid = Some n"
    and target: "caller \<in> set (targetUsers n)"
  shows "\<exists>s1. markAsRead caller nid s = (Inr (), s1) \<and>
           markAsRead caller nid s1 = (Inr (), s1) \<and>
           map_option (isReadByUser caller) (findById notification_id (notifications s1) nid)
             = Some True"
proof -
  let ?n1 = "notificationMarkAsRead caller n"
  let ?s1 = "s\<lparr>notifications := updateDoc notification_id ?n1 (notifications s)\<rparr>"
  have nid: "notification_id n = nid" using found by (rule findById_id)
  have id1: "notification_id ?n1 = nid" by (simp add: notificationMarkAsRead_def nid)
  have ex: "list_ex (\<lambda>userId. userId = caller) (targetUsers n)"
    using target by (auto simp: list_ex_iff)
  have first: "markAsRead caller nid s = (Inr (), ?s1)"
    using found ex by (simp add: markAsRead_def)
  have found1: "findById notification_id (notifications ?s1) nid = Some ?n1"
    using findById_updateDoc [of notification_id "notifications s" ?n1 n] found id1 by simp
  have again: "notificationMarkAsRead caller ?n1 = ?n1"
    by (simp add: notificationMarkAsRead_def update_twice)
  have same: "updateDoc notification_id ?n1 (notifications ?s1) = notifications ?s1"
    using updateDoc_same [of notification_id "notifications ?s1" ?n1] found1 id1 by simp
  have ex1: "list_ex (\<lambda>userId. userId = caller) (targetUsers ?n1)"
    using ex by (simp add: notificationMarkAsRead_def)
  have second: "markAsRead caller nid ?s1 = (Inr (), ?s1)"
    unfolding markAsRead_def using found1 ex1 again same by simp
  have rd: "isReadByUser caller ?n1"
    by (simp add: isReadByUser_def notificationMarkAsRead_def update_conv)
  show ?thesis using first second found1 rd by simp
qed

theorem markAsRead_idempotent_witness:
  "findById notification_id (notifications sampleStore) 30 = Some sampleNotification \<and>
   (3::nat) \<in> set (targetUsers sampleNotification) \<and>
   (\<exists>s1. markAsRead 3 30 sampleStore = (Inr (), s1) \<and>
         markAsRead 3 30 s1 = (Inr (), s1) \<and>
         map_option (isReadByUser 3) (findById notification_id (notifications s1) 30)
           = Some True)"
proof -
  have f: "findById notification_id (notifications sampleStore) 30 = Some sampleNotification"
    by (simp add: sampleStore_def sampleNotification_def findById_def)
  have t: "(3::nat) \<in> set (targetUsers sampleNotification)"
    by (simp add: sampleStore_def sampleNotification_def findById_def)
  show ?thesis using f t markAsRead_idempotent [OF f t] by blast
qed

section \<open>Who completes a registration\<close>

text \<open>
  C9. \<open>verifyPayment\<close> looks the participant up by the caller, not by the user recorded
  in the payment, and compares the two nowhere. With a valid signature and a contest
  payment in the store, a caller other than \<open>payment.user\<close> still gets the payment marked
  completed; in every contest the entries of all users but the caller stay as they are
  (those of the paying user among them), and the entry found for the caller in the
  payment's contest, if there is one, is set to completed with this payment's id.
\<close>

theorem verifyPayment_matches_caller:
  assumes sig: "body_razorpaySignature body = Some (generatedSignature e body)"
    and pid: "body_paymentId body = Some pid"
    and found: "findById payment_id (payments s) pid = Some p"
    and contestPayment: "purpose p = ForContest \<and> relatedModel p = Some ModelContest"
    and other: "caller \<noteq> payment_user p"
  shows "\<exists>r s'.
           verifyPayment e newNotificationId caller body s = (Inr r, s') \<and>
           sum_status r = Completed \<and>
           map_option status (findById payment_id (payments s') pid) = Some Completed \<and>
           (\<forall>k c. findById contest_id (contests s) k = Some c \<longrightarrow>
              (\<exists>c'. findById contest_id (contests s') k = Some c' \<and>
                    length (participants c') = length (participants c) \<and>
                    (\<forall>j < length (participants c).
                       part_user (participants c ! j) \<noteq> caller \<longrightarrow>
                         participants c' ! j = participants c ! j))) \<and>
           (\<forall>cid c j.
              relatedTo p = Some cid \<and> findById contest_id (contests s) cid = Some c \<and>
              findIndex (\<lambda>q. part_user q = caller) (participants c) = Some j \<longrightarrow>
                part_user (participants c ! j) = caller \<and>
                map_option (\<lambda>c'. participants c' ! j) (findById contest_id (contests s') cid)
                  = Some ((participants c ! j)
                            \<lparr>paymentStatus := PartCompleted, paymentId := Some pid\<rparr>))"
proof -
  let ?p = "p\<lparr>razorpayPaymentId := body_razorpayPaymentId body,
               razorpaySignature := body_razorpaySignature body,
               status := Completed\<rparr>"
  let ?cs = "completeParticipant caller ?p (contests s)"
  have pid_p: "payment_id p = pid" using found by (rule findById_id)
  have pay: "findById payment_id (updateDoc payment_id ?p (payments s)) pid = Some ?p"
    using findById_updateDoc [of payment_id "payments s" ?p p] found pid_p by simp
  let ?r = "\<lparr> sum_id = pid, sum_amount = amount p, sum_status = Completed,
               sum_purpose = purpose p \<rparr>"
  let ?s' = "s\<lparr> payments := updateDoc payment_id ?p (payments s),
                contests := ?cs,
                notifications := insertDoc (paymentNotification e newNotificationId caller ?p)
                                   (notifications s),
                emitted := emitted s @ [(caller, ''PAYMENT_SUCCESS'')] \<rparr>"
  have run: "verifyPayment e newNotificationId caller body s = (Inr ?r, ?s')"
    using sig pid found pid_p by (simp add: verifyPayment_def Let_def)
  have st: "sum_status ?r = Completed"
    by simp
  have pay': "map_option status (findById payment_id (payments ?s') pid) = Some Completed"
    using pay by simp
  have cs': "contests ?s' = ?cs"
    by simp
  have others: "\<forall>k c. findById contest_id (contests s) k = Some c \<longrightarrow>
              (\<exists>c'. findById contest_id (contests ?s') k = Some c' \<and>
                    length (participants c') = length (participants c) \<and>
                    (\<forall>j < length (participants c).
                       part_user (participants c ! j) \<noteq> caller \<longrightarrow>
                         participants c' ! j = participants c ! j))"
    unfolding cs' by (intro allI impI) (rule completeParticipant_others)
  have mine: "\<forall>cid c j.
              relatedTo p = Some cid \<and> findById contest_id (contests s) cid = Some c \<and>
              findIndex (\<lambda>q. part_user q = caller) (participants c) = Some j \<longrightarrow>
                part_user (participants c ! j) = caller \<and>
                map_option (\<lambda>c'. participants c' ! j) (findById contest_id (contests ?s') cid)
                  = Some ((participants c ! j)
                            \<lparr>paymentStatus := PartCompleted, paymentId := Some pid\<rparr>)"
    unfolding cs'
  proof (intro allI impI, elim conjE)
    fix cid c j
    assume rel: "relatedTo p = Some cid"
      and c: "findById contest_id (contests s) cid = Some c"
      and j: "findIndex (\<lambda>q. part_user q = caller) (participants c) = Some j"
    have jj: "j < length (participants c) \<and> part_user (participants c ! j) = caller"
      using findIndex_Some [OF j] by simp
    have "findById contest_id ?cs cid =
            Some (c\<lparr>participants := (participants c)
                     [j := (participants c ! j)\<lparr>paymentStatus := PartCompleted,
                                                paymentId := Some (payment_id ?p)\<rparr>]\<rparr>)"
      using completeParticipant_caller [of ?p cid "contests s" c caller j]
        contestPayment rel c j by simp
    then show "part_user (participants c ! j) = caller \<and>
                map_option (\<lambda>c'. participants c' ! j) (findById contest_id ?cs cid)
                  = Some ((participants c ! j)
                            \<lparr>paymentStatus := PartCompleted, paymentId := Some pid\<rparr>)"
      using jj pid_p by simp
  qed
  show ?thesis
    by (rule exI [of _ ?r], rule exI [of _ ?s']) (intro conjI run st pay' others mine)
qed

theorem verifyPayment_matches_caller_witness:
  "body_razorpaySignature (signedBody 20) = Some (generatedSignature sampleEnv (signedBody 20)) \<and>
   body_paymentId (signedBody 20) = Some 20 \<and>
   findById payment_id (payments sampleStore) 20 = Some samplePayment \<and>
   purpose samplePayment = ForContest \<and> relatedModel samplePayment = Some ModelContest \<and>
   3 \<noteq> payment_user samplePayment \<and>
   relatedTo samplePayment = Some 10 \<and>
   findById contest_id (contests sampleStore) 10 = Some sampleContest \<and>
   findIndex (\<lambda>q. part_user q = 3) (participants sampleContest) = Some 1 \<and>
   (0::nat) < length (participants sampleContest) \<and>
   part_user (participants sampleContest ! 0) \<noteq> 3 \<and>
   (\<exists>r s'.
      verifyPayment sampleEnv 31 3 (signedBody 20) sampleStore = (Inr r, s') \<and>
      sum_status r = Completed \<and>
      map_option status (findById payment_id (payments s') 20) = Some Completed \<and>
      (\<forall>k c. findById contest_id (contests sampleStore) k = Some c \<longrightarrow>
         (\<exists>c'. findById contest_id (contests s') k = Some c' \<and>
               length (participants c') = length (participants c) \<and>
               (\<forall>j < length (participants c).
                  part_user (participants c ! j) \<noteq> 3 \<longrightarrow>
                    participants c' ! j = participants c ! j))) \<and>
      (\<forall>cid c j.
         relatedTo samplePayment = Some cid \<and>
         findById contest_id (contests sampleStore) cid = Some c \<and>
         findIndex (\<lambda>q. part_user q = 3) (participants c) = Some j \<longrightarrow>
           part_user (participants c ! j) = 3 \<and>
           map_option (\<lambda>c'. participants c' ! j) (findById contest_id (contests s') cid)
             = Some ((participants c ! j)
                       \<lparr>paymentStatus := PartCompleted, paymentId := Some 20\<rparr>)))"
proof -
  have sig: "body_razorpaySignature (signedBody 20)
               = Some (generatedSignature sampleEnv (signedBody 20))"
    by (simp add: signedBody_def generatedSignature_def sampleEnv_def)
  have pid: "body_paymentId (signedBody 20) = Some 20"
    by (simp add: signedBody_def)
  have found: "findById payment_id (payments sampleStore) 20 = Some samplePayment"
    by (simp add: sampleStore_def samplePayment_def findById_def)
  have cp: "purpose samplePayment = ForContest \<and> relatedModel samplePayment = Some ModelContest"
    by (simp add: samplePayment_def)
  have other: "3 \<noteq> payment_user samplePayment"
    by (simp add: samplePayment_def)
  have rel: "relatedTo samplePayment = Some 10"
    by (simp add: samplePayment_def)
  have c: "findById contest_id (contests sampleStore) 10 = Some sampleContest"
    by (simp add: sampleStore_def sampleContest_def findById_def)
  have idx: "findIndex (\<lambda>q. part_user q = 3) (participants sampleContest) = Some 1"
    by (simp add: sampleContest_def)
  have len: "(0::nat) < length (participants sampleContest)"
    by (simp add: sampleContest_def)
  have payer: "part_user (participants sampleContest ! 0) \<noteq> 3"
    by (simp add: sampleContest_def)
  show ?thesis
    by (intro conjI sig pid found conjunct1 [OF cp] conjunct2 [OF cp] other rel c idx len payer
          verifyPayment_matches_caller [OF sig pid found cp other])
qed

section \<open>A capacity of zero\<close>

text \<open>
  C10. \<open>isFull\<close> is false whenever \<open>maxParticipants\<close> is \<open>null\<close> or 0. So for a contest in
  the store with \<open>maxParticipants = 0\<close> whose registration is open, \<open>registerForContest\<close>
  never fails with Full; for every caller who is not yet a participant it succeeds, and
  the contest in the resulting store has the caller's entry appended to its participants,
  however many participants the contest had.
\<close>

theorem maxParticipants_zero_unbounded:
  "(maxParticipants c = None \<or> maxParticipants c = Some 0 \<longrightarrow> \<not> isFull c) \<and>
   (findById contest_id (contests s) cid = Some c \<and> maxParticipants c = Some 0 \<and>
    isRegistrationOpen now c \<longrightarrow>
      fst (registerForContest now registeredNow newPaymentId caller cid s) \<noteq> Inl Full \<and>
      (\<not> list_ex (\<lambda>p. part_user p = caller) (participants c) \<longrightarrow>
         (\<exists>r. fst (registerForContest now registeredNow newPaymentId caller cid s) = Inr r) \<and>
         findById contest_id
           (contests (snd (registerForContest now registeredNow newPaymentId caller cid s))) cid
           = Some (c\<lparr>participants := participants c @
                    [\<lparr> part_user = caller, registeredAt = registeredNow,
                       paymentStatus = (if 0 < entryFee c then PartPending else PartCompleted),
                       paymentId = (if 0 < entryFee c then Some newPaymentId else None) \<rparr>]\<rparr>)))"
proof (intro conjI impI)
  assume "maxParticipants c = None \<or> maxParticipants c = Some 0"
  then show "\<not> isFull c" by (auto simp: isFull_def)
next
  assume h: "findById contest_id (contests s) cid = Some c \<and> maxParticipants c = Some 0 \<and>
             isRegistrationOpen now c"
  then show "fst (registerForContest now registeredNow newPaymentId caller cid s) \<noteq> Inl Full"
    by (auto simp: isFull_def registerForContest_def Let_def)
next
  assume h: "findById contest_id (contests s) cid = Some c \<and> maxParticipants c = Some 0 \<and>
             isRegistrationOpen now c"
    and new: "\<not> list_ex (\<lambda>p. part_user p = caller) (participants c)"
  then show "\<exists>r. fst (registerForContest now registeredNow newPaymentId caller cid s) = Inr r"
    by (auto simp: isFull_def registerForContest_def Let_def)
next
  assume h: "findById contest_id (contests s) cid = Some c \<and> maxParticipants c = Some 0 \<and>
             isRegistrationOpen now c"
    and new: "\<not> list_ex (\<lambda>p. part_user p = caller) (participants c)"
  have found: "findById contest_id (contests s) cid = Some c" using h by simp
  have cid: "contest_id c = cid" using found by (rule findById_id)
  have upd: "\<And>c'. contest_id c' = cid \<Longrightarrow>
      findById contest_id (updateDoc contest_id c' (contests s)) cid = Some c'"
    using findById_updateDoc [of contest_id "contests s" _ c] found by auto
  show "findById contest_id
           (contests (snd (registerForContest now registeredNow newPaymentId caller cid s))) cid
           = Some (c\<lparr>participants := participants c @
                    [\<lparr> part_user = caller, registeredAt = registeredNow,
                       paymentStatus = (if 0 < entryFee c then PartPending else PartCompleted),
                       paymentId = (if 0 < entryFee c then Some newPaymentId else None) \<rparr>]\<rparr>)"
    using h new
    by (simp add: isFull_def registerForContest_def Let_def registrationPayment_def cid upd)
qed

theorem maxParticipants_zero_unbounded_witness:
  "findById contest_id (contests zeroCapacityStore) 10
     = Some (sampleContest\<lparr>maxParticipants := Some 0\<rparr>) \<and>
   maxParticipants (sampleContest\<lparr>maxParticipants := Some 0\<rparr>) = Some 0 \<and>
   isRegistrationOpen 500 (sampleContest\<lparr>maxParticipants := Some 0\<rparr>) \<and>
   length (participants (sampleContest\<lparr>maxParticipants := Some 0\<rparr>)) = 2 \<and>
   \<not> list_ex (\<lambda>p. part_user p = 4) (participants (sampleContest\<lparr>maxParticipants := Some 0\<rparr>)) \<and>
   \<not> isFull (sampleContest\<lparr>maxParticipants := Some 0\<rparr>) \<and>
   fst (registerForContest 500 501 22 4 10 zeroCapacityStore) \<noteq> Inl Full \<and>
   (\<exists>r. fst (registerForContest 500 501 22 4 10 zeroCapacityStore) = Inr r) \<and>
   findById contest_id (contests (snd (registerForContest 500 501 22 4 10 zeroCapacityStore))) 10
     = Some (sampleContest
               \<lparr>maxParticipants := Some 0,
                participants := participants (sampleContest\<lparr>maxParticipants := Some 0\<rparr>) @
                  [\<lparr> part_user = 4, registeredAt = 501, paymentStatus = PartPending,
                     paymentId = Some 22 \<rparr>]\<rparr>)"
proof -
  let ?c = "sampleContest\<lparr>maxParticipants := Some 0\<rparr>"
  have f: "findById contest_id (contests zeroCapacityStore) 10 = Some ?c"
    by (simp add: zeroCapacityStore_def sampleStore_def sampleContest_def findById_def)
  have m: "maxParticipants ?c = Some 0"
    by simp
  have op: "isRegistrationOpen 500 ?c"
    by (simp add: sampleContest_def isRegistrationOpen_def)
  have len: "length (participants ?c) = 2"
    by (simp add: sampleContest_def)
  have new: "\<not> list_ex (\<lambda>p. part_user p = 4) (participants ?c)"
    by (simp add: sampleContest_def)
  have fee: "0 < entryFee ?c"
    by (simp add: sampleContest_def)
  note inst = maxParticipants_zero_unbounded [of ?c zeroCapacityStore 10 500 501 22 4]
  have notFull: "\<not> isFull ?c"
    using inst [THEN conjunct1] m by blast
  note open_case = inst [THEN conjunct2, THEN mp, OF conjI [OF f conjI [OF m op]]]
  note accepted = open_case [THEN conjunct2, THEN mp, OF new]
  have stored: "findById contest_id
       (contests (snd (registerForContest 500 501 22 4 10 zeroCapacityStore))) 10
     = Some (sampleContest
               \<lparr>maxParticipants := Some 0,
                participants := participants ?c @
                  [\<lparr> part_user = 4, registeredAt = 501, paymentStatus = PartPending,
                     paymentId = Some 22 \<rparr>]\<rparr>)"
    using accepted [THEN conjunct2] fee by simp
  show ?thesis
    by (intro conjI f m op len new notFull open_case [THEN conjunct1]
          accepted [THEN conjunct1] stored)
qed

end
